theory Spec2Isabelle
  imports Main
begin

section \<open>Clock readings and their two textual forms\<close>

text \<open>
  A clock reading is the number that \<^verbatim>\<open>Date.now()\<close> returns: milliseconds since
  1970-01-01T00:00:00Z. The program writes such readings into the database in two
  textual forms and the claims about the refresh-token table depend on how the two forms
  compare as text, so both are written out:
  \<^item> \<^verbatim>\<open>new Date(ms).toISOString()\<close> gives \<^verbatim>\<open>YYYY-MM-DDTHH:mm:ss.sssZ\<close>
    (authController.js, storeRefreshToken);
  \<^item> SQLite's \<^verbatim>\<open>datetime("now")\<close> and \<^verbatim>\<open>CURRENT_TIMESTAMP\<close> give
    \<^verbatim>\<open>YYYY-MM-DD HH:MM:SS\<close> in UTC.
  Both are functions of the JavaScript runtime and of SQLite, not of the repository; they
  are modelled from their documented behaviour for years 0000 to 9999 (four-digit years).
\<close>

type_synonym instant = int

definition digit :: "int \<Rightarrow> char" where
  "digit n = ''0123456789'' ! nat (n mod 10)"

definition pad2 :: "int \<Rightarrow> string" where
  "pad2 n = [digit (n div 10), digit n]"

definition pad3 :: "int \<Rightarrow> string" where
  "pad3 n = [digit (n div 100), digit (n div 10), digit n]"

definition pad4 :: "int \<Rightarrow> string" where
  "pad4 n = [digit (n div 1000), digit (n div 100), digit (n div 10), digit n]"

text \<open>The proleptic Gregorian date (year, month, day) of a day number counted from
  1970-01-01, by the usual era/day-of-era computation (eras of 400 years = 146097 days,
  years starting on 1 March).\<close>

definition civil_from_days :: "int \<Rightarrow> int \<times> int \<times> int" where
  "civil_from_days days =
     (let z = days + 719468;
          era = z div 146097;
          doe = z mod 146097;
          yoe = (doe - doe div 1460 + doe div 36524 - doe div 146096) div 365;
          doy = doe - (365 * yoe + yoe div 4 - yoe div 100);
          mp = (5 * doy + 2) div 153;
          d = doy - (153 * mp + 2) div 5 + 1;
          m = (if mp < 10 then mp + 3 else mp - 9);
          y = yoe + era * 400 + (if m \<le> 2 then 1 else 0)
      in (y, m, d))"

definition date_text :: "instant \<Rightarrow> string" where
  "date_text ms =
     (case civil_from_days (ms div 86400000) of
        (y, m, d) \<Rightarrow> pad4 y @ ''-'' @ pad2 m @ ''-'' @ pad2 d)"

definition clock_text :: "instant \<Rightarrow> string" where
  "clock_text ms =
     (let s = (ms mod 86400000) div 1000
      in pad2 (s div 3600) @ '':'' @ pad2 ((s div 60) mod 60) @ '':'' @ pad2 (s mod 60))"

definition toISOString :: "instant \<Rightarrow> string" where
  "toISOString ms = date_text ms @ ''T'' @ clock_text ms @ ''.'' @ pad3 (ms mod 1000) @ ''Z''"

definition sqlite_datetime :: "instant \<Rightarrow> string" where
  "sqlite_datetime ms = date_text ms @ '' '' @ clock_text ms"

text \<open>SQLite compares two TEXT values under the default BINARY collation byte by byte
  (\<^verbatim>\<open>memcmp\<close>); when one is a prefix of the other the longer one is greater. The
  column \<^verbatim>\<open>expires_at DATETIME\<close> has NUMERIC affinity, which leaves a text that
  is not a number as TEXT, so \<^verbatim>\<open>expires_at > datetime("now")\<close> is this comparison.\<close>

fun text_gt :: "string \<Rightarrow> string \<Rightarrow> bool" where
  "text_gt [] _ = False"
| "text_gt (a # as) [] = True"
| "text_gt (a # as) (b # bs) =
     (if (of_char b :: nat) < of_char a then True
      else if (of_char a :: nat) < of_char b then False
      else text_gt as bs)"

section \<open>Data model\<close>

text \<open>A row of table \<^verbatim>\<open>users\<close> (config/database.js, createTables); the
  \<^verbatim>\<open>User\<close> object built from it by the constructor in models/User.js has the same
  fields in camelCase and is modelled by the same record. \<^verbatim>\<open>locked_until\<close> holds
  \<^verbatim>\<open>NULL\<close> or a date that JavaScript reads back with \<^verbatim>\<open>new Date(...)\<close> and
  compares as a number (isLocked), so it is kept as the instant it denotes;
  \<^verbatim>\<open>created_at\<close> and \<^verbatim>\<open>updated_at\<close> hold the text of
  \<^verbatim>\<open>CURRENT_TIMESTAMP\<close>.\<close>

record user_row =
  u_id :: nat
  first_name :: string
  last_name :: string
  u_email :: string
  u_password :: string
  u_role :: string
  u_status :: string
  login_attempts :: int
  locked_until :: "instant option"
  created_at :: string
  updated_at :: string

text \<open>A row of table \<^verbatim>\<open>refresh_tokens\<close>. \<^verbatim>\<open>expires_at\<close> is the text that
  storeRefreshToken binds; SQLite compares it as text.\<close>

record token_row =
  t_id :: nat
  token :: string
  user_id :: nat
  expires_at :: string
  t_created_at :: string

record db =
  users :: "user_row list"
  users_seq :: nat
  refresh_tokens :: "token_row list"
  tokens_seq :: nat

text \<open>A JavaScript object carrying user fields: the \<^verbatim>\<open>userData\<close> of User.create,
  the \<^verbatim>\<open>updateData\<close> of User.update (the request body of PUT /users/:id) and a
  record read from the Excel mirror. \<open>None\<close> is \<^verbatim>\<open>undefined\<close>;
  \<open>lockedUntil = Some None\<close> is \<^verbatim>\<open>null\<close> and \<open>Some (Some t)\<close> is a date
  that denotes the instant \<open>t\<close>.\<close>

record user_fields =
  firstName :: "string option"
  lastName :: "string option"
  email :: "string option"
  password :: "string option"
  role :: "string option"
  status :: "string option"
  loginAttempts :: "int option"
  lockedUntil :: "instant option option"

definition no_fields :: user_fields where
  "no_fields = \<lparr>firstName = None, lastName = None, email = None, password = None,
     role = None, status = None, loginAttempts = None, lockedUntil = None\<rparr>"

text \<open>config/config.js: the values the modelled code reads.\<close>

record config =
  jwt_secret :: string
  jwt_refreshSecret :: string
  jwt_expiresIn :: string
  jwt_refreshExpiresIn :: string
  maxLoginAttempts :: int
  lockoutTime :: int

text \<open>The payload the controllers sign and read back: \<^verbatim>\<open>{id, email, role?}\<close>.\<close>

record jwt_payload =
  p_id :: nat
  p_email :: string
  p_role :: "string option"

datatype jwt_error = JsonWebTokenError | TokenExpiredError | NotBeforeError

datatype db_op =
  SelectUserByEmail | SelectUserById | InsertUser | UpdateUser
  | InsertToken | SelectToken | DeleteToken

text \<open>What one request sees of the world outside the repository: the clock, the error (if
  any) that sqlite3 hands to the callback of each kind of statement, and the library calls
  \<^verbatim>\<open>bcrypt.hash(p, 12)\<close>, \<^verbatim>\<open>bcrypt.compare(p, h)\<close>,
  \<^verbatim>\<open>jwt.sign(payload, secret, {expiresIn})\<close> (\<open>Inl\<close> when it throws) and
  \<^verbatim>\<open>jwt.verify(token, secret)\<close> (\<open>Inl\<close> on a bad signature or an expired
  token, else the decoded payload). A request reads the clock once: \<^verbatim>\<open>new Date()\<close>,
  \<^verbatim>\<open>Date.now()\<close> and SQLite's \<^verbatim>\<open>CURRENT_TIMESTAMP\<close> within one request are
  the same instant.\<close>

record env =
  now :: instant
  db_error :: "db_op \<Rightarrow> string option"
  bcrypt_hash :: "string \<Rightarrow> string"
  bcrypt_compare :: "string \<Rightarrow> string \<Rightarrow> bool"
  jwt_sign :: "jwt_payload \<Rightarrow> string \<Rightarrow> string \<Rightarrow> string + string"
  jwt_verify :: "string \<Rightarrow> string \<Rightarrow> jwt_error + jwt_payload"

text \<open>\<^verbatim>\<open>x || d\<close> on an optional string: \<^verbatim>\<open>undefined\<close> and the empty string are
  falsy.\<close>

definition or_default :: "string option \<Rightarrow> string \<Rightarrow> string" where
  "or_default x d = (case x of None \<Rightarrow> d | Some s \<Rightarrow> if s = [] then d else s)"

definition truthy :: "string option \<Rightarrow> bool" where
  "truthy x = (case x of None \<Rightarrow> False | Some s \<Rightarrow> s \<noteq> [])"

section \<open>models/User.js\<close>

definition findByEmail :: "env \<Rightarrow> db \<Rightarrow> string \<Rightarrow> string + user_row option" where
  "findByEmail e d em =
     (case db_error e SelectUserByEmail of
        Some err \<Rightarrow> Inl err
      | None \<Rightarrow> Inr (find (\<lambda>r. u_email r = em) (users d)))"

definition findById :: "env \<Rightarrow> db \<Rightarrow> nat \<Rightarrow> string + user_row option" where
  "findById e d i =
     (case db_error e SelectUserById of
        Some err \<Rightarrow> Inl err
      | None \<Rightarrow> Inr (find (\<lambda>r. u_id r = i) (users d)))"

text \<open>User.create: the password is hashed, then one row is inserted. The table's
  constraints are part of the statement's outcome: \<^verbatim>\<open>first_name\<close>,
  \<^verbatim>\<open>last_name\<close> and \<^verbatim>\<open>email\<close> are NOT NULL (SQLite reports the first
  such column that is NULL, in column order) and \<^verbatim>\<open>email\<close> is UNIQUE.
  \<^verbatim>\<open>bcrypt.hash(undefined, 12)\<close> throws.\<close>

definition create :: "env \<Rightarrow> db \<Rightarrow> user_fields \<Rightarrow> string + (nat \<times> db)" where
  "create e d userData =
     (case password userData of
        None \<Rightarrow> Inl ''Illegal arguments: undefined, number''
      | Some pw \<Rightarrow>
          (let hashedPassword = bcrypt_hash e pw in
           case db_error e InsertUser of
             Some err \<Rightarrow> Inl err
           | None \<Rightarrow>
              (case firstName userData of
                 None \<Rightarrow> Inl ''SQLITE_CONSTRAINT: NOT NULL constraint failed: users.first_name''
               | Some fn \<Rightarrow>
              (case lastName userData of
                 None \<Rightarrow> Inl ''SQLITE_CONSTRAINT: NOT NULL constraint failed: users.last_name''
               | Some ln \<Rightarrow>
              (case email userData of
                 None \<Rightarrow> Inl ''SQLITE_CONSTRAINT: NOT NULL constraint failed: users.email''
               | Some em \<Rightarrow>
                   if \<exists>r \<in> set (users d). u_email r = em
                   then Inl ''SQLITE_CONSTRAINT: UNIQUE constraint failed: users.email''
                   else
                     (let lastID = Suc (users_seq d);
                          row = \<lparr>u_id = lastID, first_name = fn, last_name = ln, u_email = em,
                                  u_password = hashedPassword,
                                  u_role = or_default (role userData) ''user'',
                                  u_status = or_default (status userData) ''active'',
                                  login_attempts = 0, locked_until = None,
                                  created_at = sqlite_datetime (now e),
                                  updated_at = sqlite_datetime (now e)\<rparr>
                      in Inr (lastID,
                              d\<lparr>users := users d @ [row], users_seq := lastID\<rparr>)))))))"

text \<open>The \<^verbatim>\<open>SET\<close> list that User.update assembles, applied to one row: a column is
  assigned exactly when its field is not \<^verbatim>\<open>undefined\<close>; the password is hashed
  first; \<^verbatim>\<open>updated_at = CURRENT_TIMESTAMP\<close> is always in the list.\<close>

definition set_fields :: "env \<Rightarrow> user_fields \<Rightarrow> user_row \<Rightarrow> user_row" where
  "set_fields e updateData r =
     r\<lparr>first_name := (case firstName updateData of None \<Rightarrow> first_name r | Some v \<Rightarrow> v),
       last_name := (case lastName updateData of None \<Rightarrow> last_name r | Some v \<Rightarrow> v),
       u_email := (case email updateData of None \<Rightarrow> u_email r | Some v \<Rightarrow> v),
       u_password := (case password updateData of None \<Rightarrow> u_password r
                      | Some v \<Rightarrow> bcrypt_hash e v),
       u_role := (case role updateData of None \<Rightarrow> u_role r | Some v \<Rightarrow> v),
       u_status := (case status updateData of None \<Rightarrow> u_status r | Some v \<Rightarrow> v),
       login_attempts := (case loginAttempts updateData of None \<Rightarrow> login_attempts r
                          | Some v \<Rightarrow> v),
       locked_until := (case lockedUntil updateData of None \<Rightarrow> locked_until r | Some v \<Rightarrow> v),
       updated_at := sqlite_datetime (now e)\<rparr>"

text \<open>User.update: \<^verbatim>\<open>UPDATE users SET ... WHERE id = ?\<close> with \<open>this.id\<close>. The
  promise resolves to \<^verbatim>\<open>this.changes > 0\<close>. The statement fails when the new email is
  the email of another row (UNIQUE).\<close>

definition update :: "env \<Rightarrow> db \<Rightarrow> user_row \<Rightarrow> user_fields \<Rightarrow> string + (bool \<times> db)" where
  "update e d this updateData =
     (case db_error e UpdateUser of
        Some err \<Rightarrow> Inl err
      | None \<Rightarrow>
          if (\<exists>r \<in> set (users d). u_id r = u_id this) \<and>
             (case email updateData of None \<Rightarrow> False
              | Some em \<Rightarrow> \<exists>r \<in> set (users d). u_id r \<noteq> u_id this \<and> u_email r = em)
          then Inl ''SQLITE_CONSTRAINT: UNIQUE constraint failed: users.email''
          else Inr (\<exists>r \<in> set (users d). u_id r = u_id this,
                    d\<lparr>users := map (\<lambda>r. if u_id r = u_id this then set_fields e updateData r
                                          else r) (users d)\<rparr>))"

definition verifyPassword :: "env \<Rightarrow> user_row \<Rightarrow> string \<Rightarrow> bool" where
  "verifyPassword e this pw = bcrypt_compare e pw (u_password this)"

definition isLocked :: "env \<Rightarrow> user_row \<Rightarrow> bool" where
  "isLocked e this = (case locked_until this of None \<Rightarrow> False | Some t \<Rightarrow> now e < t)"

text \<open>incrementLoginAttempts and resetLoginAttempts write the row and then the object in
  memory; the result is the object and the database after the call.\<close>

definition incrementLoginAttempts ::
  "config \<Rightarrow> env \<Rightarrow> db \<Rightarrow> user_row \<Rightarrow> string + (user_row \<times> db)" where
  "incrementLoginAttempts c e d this =
     (let attempts = login_attempts this + 1;
          lockedUntil' = (if attempts \<ge> maxLoginAttempts c
                          then Some (now e + lockoutTime c * 60 * 1000) else None)
      in case update e d this (no_fields\<lparr>loginAttempts := Some attempts,
                                          lockedUntil := Some lockedUntil'\<rparr>) of
           Inl err \<Rightarrow> Inl err
         | Inr (_, d') \<Rightarrow>
             Inr (this\<lparr>login_attempts := attempts, locked_until := lockedUntil'\<rparr>, d'))"

definition resetLoginAttempts :: "env \<Rightarrow> db \<Rightarrow> user_row \<Rightarrow> string + (user_row \<times> db)" where
  "resetLoginAttempts e d this =
     (case update e d this (no_fields\<lparr>loginAttempts := Some 0, lockedUntil := Some None\<rparr>) of
        Inl err \<Rightarrow> Inl err
      | Inr (_, d') \<Rightarrow> Inr (this\<lparr>login_attempts := 0, locked_until := None\<rparr>, d'))"

text \<open>toJSON: the object without its password.\<close>

datatype user_json =
  UserJSON nat string string string string string int "instant option" string string

definition toJSON :: "user_row \<Rightarrow> user_json" where
  "toJSON this = UserJSON (u_id this) (first_name this) (last_name this) (u_email this)
     (u_role this) (u_status this) (login_attempts this) (locked_until this)
     (created_at this) (updated_at this)"

section \<open>HTTP responses\<close>

datatype resp_data =
  LoginData user_json string string string
  | RefreshData string string
  | UserData user_json

record response =
  http_status :: nat
  success :: bool
  message :: string
  data :: "resp_data option"
  error :: "string option"

definition fail :: "nat \<Rightarrow> string \<Rightarrow> response" where
  "fail code msg = \<lparr>http_status = code, success = False, message = msg, data = None,
     error = None\<rparr>"

definition server_error :: "string \<Rightarrow> response" where
  "server_error err = \<lparr>http_status = 500, success = False, message = ''Server error'',
     data = None, error = Some err\<rparr>"

definition ok :: "string \<Rightarrow> resp_data option \<Rightarrow> response" where
  "ok msg dat = \<lparr>http_status = 200, success = True, message = msg, data = dat,
     error = None\<rparr>"

section \<open>controllers/authController.js\<close>

text \<open>storeRefreshToken: the row's expiry is \<^verbatim>\<open>Date.now()\<close> plus seven days, bound as
  the text of \<^verbatim>\<open>toISOString()\<close>. (SQLite does not enforce the foreign key unless
  asked to; the code does not ask.)\<close>

definition storeRefreshToken :: "env \<Rightarrow> db \<Rightarrow> string \<Rightarrow> nat \<Rightarrow> string + (nat \<times> db)" where
  "storeRefreshToken e d tok userId =
     (let expiresAt = toISOString (now e + 7 * 24 * 60 * 60 * 1000) in
      case db_error e InsertToken of
        Some err \<Rightarrow> Inl err
      | None \<Rightarrow>
          (let lastID = Suc (tokens_seq d);
               row = \<lparr>t_id = lastID, token = tok, user_id = userId, expires_at = expiresAt,
                       t_created_at = sqlite_datetime (now e)\<rparr>
           in Inr (lastID, d\<lparr>refresh_tokens := refresh_tokens d @ [row],
                              tokens_seq := lastID\<rparr>)))"

text \<open>validateRefreshToken:
  \<^verbatim>\<open>SELECT * FROM refresh_tokens WHERE token = ? AND user_id = ? AND expires_at > datetime("now")\<close>,
  resolved to \<^verbatim>\<open>!!row\<close>. (There is no column \<^verbatim>\<open>now\<close>, so SQLite reads the
  double-quoted \<^verbatim>\<open>"now"\<close> as the string literal.)\<close>

definition validateRefreshToken :: "env \<Rightarrow> db \<Rightarrow> string \<Rightarrow> nat \<Rightarrow> string + bool" where
  "validateRefreshToken e d tok userId =
     (case db_error e SelectToken of
        Some err \<Rightarrow> Inl err
      | None \<Rightarrow>
          (case find (\<lambda>r. token r = tok \<and> user_id r = userId \<and>
                          text_gt (expires_at r) (sqlite_datetime (now e)))
                     (refresh_tokens d) of
             None \<Rightarrow> Inr False
           | Some row \<Rightarrow> Inr True))"

text \<open>removeRefreshToken: \<^verbatim>\<open>DELETE FROM refresh_tokens WHERE token = ?\<close>, resolved to
  \<^verbatim>\<open>this.changes > 0\<close>.\<close>

definition removeRefreshToken :: "env \<Rightarrow> db \<Rightarrow> string \<Rightarrow> string + (bool \<times> db)" where
  "removeRefreshToken e d tok =
     (case db_error e DeleteToken of
        Some err \<Rightarrow> Inl err
      | None \<Rightarrow>
          Inr (\<exists>r \<in> set (refresh_tokens d). token r = tok,
               d\<lparr>refresh_tokens := filter (\<lambda>r. token r \<noteq> tok) (refresh_tokens d)\<rparr>))"

definition msg_locked :: string where
  "msg_locked = ''Account is temporarily locked due to too many failed login attempts''"

definition msg_too_many :: string where
  "msg_too_many = ''Too many failed attempts. Account has been temporarily locked.''"

text \<open>AuthController.login with body \<^verbatim>\<open>{email, password}\<close>. Every rejected promise and
  every throw inside the \<^verbatim>\<open>try\<close> ends in the \<^verbatim>\<open>catch\<close>: status 500. The
  result is the response and the database after the request.\<close>

definition login :: "config \<Rightarrow> env \<Rightarrow> db \<Rightarrow> string \<Rightarrow> string \<Rightarrow> response \<times> db" where
  "login c e d em pw =
     (case findByEmail e d em of
        Inl err \<Rightarrow> (server_error err, d)
      | Inr None \<Rightarrow> (fail 401 ''Invalid credentials'', d)
      | Inr (Some user) \<Rightarrow>
          if u_status user \<noteq> ''active'' then (fail 401 ''Account is inactive'', d)
          else if isLocked e user then (fail 423 msg_locked, d)
          else if \<not> verifyPassword e user pw then
            (case incrementLoginAttempts c e d user of
               Inl err \<Rightarrow> (server_error err, d)
             | Inr (user', d') \<Rightarrow>
                 (fail 401 (if login_attempts user' \<ge> maxLoginAttempts c then msg_too_many
                            else ''Invalid credentials''), d'))
          else
            (case (if login_attempts user > 0 then resetLoginAttempts e d user
                   else Inr (user, d)) of
               Inl err \<Rightarrow> (server_error err, d)
             | Inr (user', d') \<Rightarrow>
                 (case jwt_sign e \<lparr>p_id = u_id user', p_email = u_email user',
                                    p_role = Some (u_role user')\<rparr>
                         (jwt_secret c) (jwt_expiresIn c) of
                    Inl err \<Rightarrow> (server_error err, d')
                  | Inr accessToken \<Rightarrow>
                      (case jwt_sign e \<lparr>p_id = u_id user', p_email = u_email user',
                                         p_role = None\<rparr>
                              (jwt_refreshSecret c) (jwt_refreshExpiresIn c) of
                         Inl err \<Rightarrow> (server_error err, d')
                       | Inr refreshToken \<Rightarrow>
                           (case storeRefreshToken e d' refreshToken (u_id user') of
                              Inl err \<Rightarrow> (server_error err, d')
                            | Inr (_, d'') \<Rightarrow>
                                (ok ''Login successful''
                                    (Some (LoginData (toJSON user') accessToken refreshToken
                                             (jwt_expiresIn c))), d''))))))"

text \<open>AuthController.refreshToken with body \<^verbatim>\<open>{refreshToken}\<close> (\<open>None\<close> when the
  field is missing). Its \<^verbatim>\<open>catch\<close> answers every throw and every rejected promise with
  401 \<^verbatim>\<open>Invalid refresh token\<close>. It writes nothing.\<close>

definition refreshToken :: "config \<Rightarrow> env \<Rightarrow> db \<Rightarrow> string option \<Rightarrow> response" where
  "refreshToken c e d body =
     (if \<not> truthy body then fail 401 ''Refresh token is required''
      else
        (let tok = or_default body [] in
         case jwt_verify e tok (jwt_refreshSecret c) of
           Inl _ \<Rightarrow> fail 401 ''Invalid refresh token''
         | Inr decoded \<Rightarrow>
             (case validateRefreshToken e d tok (p_id decoded) of
                Inl _ \<Rightarrow> fail 401 ''Invalid refresh token''
              | Inr tokenExists \<Rightarrow>
                  if \<not> tokenExists then fail 401 ''Invalid refresh token''
                  else
                    (case findById e d (p_id decoded) of
                       Inl _ \<Rightarrow> fail 401 ''Invalid refresh token''
                     | Inr None \<Rightarrow> fail 401 ''User not found or inactive''
                     | Inr (Some user) \<Rightarrow>
                         if u_status user \<noteq> ''active''
                         then fail 401 ''User not found or inactive''
                         else
                           (case jwt_sign e \<lparr>p_id = u_id user, p_email = u_email user,
                                              p_role = Some (u_role user)\<rparr>
                                   (jwt_secret c) (jwt_expiresIn c) of
                              Inl _ \<Rightarrow> fail 401 ''Invalid refresh token''
                            | Inr accessToken \<Rightarrow>
                                ok ''Token refreshed successfully''
                                   (Some (RefreshData accessToken (jwt_expiresIn c))))))))"

text \<open>AuthController.logout with body \<^verbatim>\<open>{refreshToken?}\<close>.\<close>

definition logout :: "env \<Rightarrow> db \<Rightarrow> string option \<Rightarrow> response \<times> db" where
  "logout e d body =
     (if truthy body then
        (case removeRefreshToken e d (or_default body []) of
           Inl err \<Rightarrow> (server_error err, d)
         | Inr (_, d') \<Rightarrow> (ok ''Logout successful'' None, d'))
      else (ok ''Logout successful'' None, d))"

section \<open>services/userService.js\<close>

text \<open>The loop of initializeUsersFromExcel over the records that
  \<^verbatim>\<open>readUsersFromExcel()\<close> returned. The \<^verbatim>\<open>try\<close> inside the loop logs a failed
  record and goes on. The result is \<^verbatim>\<open>processedCount\<close> and the database.
  (\<^verbatim>\<open>findByEmail(undefined)\<close> binds NULL, which no row equals.)\<close>

fun initializeUsersFromExcel :: "env \<Rightarrow> db \<Rightarrow> user_fields list \<Rightarrow> nat \<Rightarrow> nat \<times> db" where
  "initializeUsersFromExcel e d [] processedCount = (processedCount, d)"
| "initializeUsersFromExcel e d (excelUser # rest) processedCount =
     (case (case email excelUser of
              None \<Rightarrow> (case db_error e SelectUserByEmail of
                          Some err \<Rightarrow> Inl err | None \<Rightarrow> Inr None)
            | Some em \<Rightarrow> findByEmail e d em) of
        Inl err \<Rightarrow> initializeUsersFromExcel e d rest processedCount
      | Inr existingUser \<Rightarrow>
          if existingUser = None \<and> truthy (email excelUser) \<and> truthy (password excelUser)
          then
            (case create e d (no_fields\<lparr>firstName := firstName excelUser,
                                lastName := lastName excelUser,
                                email := email excelUser,
                                password := password excelUser,
                                role := Some (or_default (role excelUser) ''user''),
                                status := Some (or_default (status excelUser) ''active'')\<rparr>) of
               Inl err \<Rightarrow> initializeUsersFromExcel e d rest processedCount
             | Inr (_, d') \<Rightarrow> initializeUsersFromExcel e d' rest (processedCount + 1))
          else initializeUsersFromExcel e d rest processedCount)"

section \<open>controllers/userController.js\<close>

text \<open>UserController.updateUser for PUT /users/:id, after the middlewares have stored the
  authenticated user in \<^verbatim>\<open>req.currentUser\<close>. The write to the Excel mirror that
  follows the database write never throws and changes neither the database nor the
  response, so it is left out.\<close>

definition updateUser ::
  "env \<Rightarrow> db \<Rightarrow> user_row \<Rightarrow> nat \<Rightarrow> user_fields \<Rightarrow> response \<times> db" where
  "updateUser e d currentUser i body =
     (case findById e d i of
        Inl err \<Rightarrow> (server_error err, d)
      | Inr None \<Rightarrow> (fail 404 ''User not found'', d)
      | Inr (Some targetUser) \<Rightarrow>
          (case (if truthy (email body) \<and> email body \<noteq> Some (u_email targetUser)
                 then findByEmail e d (or_default (email body) [])
                 else Inr None) of
             Inl err \<Rightarrow> (server_error err, d)
           | Inr (Some existingUser) \<Rightarrow> (fail 400 ''User with this email already exists'', d)
           | Inr None \<Rightarrow>
              (let updateData1 = (if truthy (role body) \<and> u_role currentUser \<noteq> ''admin''
                                  then body\<lparr>role := None\<rparr> else body);
                   updateData = (if truthy (status updateData1) \<and> u_role currentUser \<noteq> ''admin''
                                 then updateData1\<lparr>status := None\<rparr> else updateData1)
               in case update e d targetUser updateData of
                    Inl err \<Rightarrow> (server_error err, d)
                  | Inr (changed, d') \<Rightarrow>
                      if \<not> changed then (fail 400 ''Failed to update user'', d')
                      else
                        (case findById e d' i of
                           Inl err \<Rightarrow> (server_error err, d')
                         | Inr None \<Rightarrow>
                             (server_error ''Cannot read properties of null'', d')
                         | Inr (Some updatedUser) \<Rightarrow>
                             (ok ''User updated successfully''
                                 (Some (UserData (toJSON updatedUser))), d')))))"

section \<open>Domain errors as seen in responses\<close>

text \<open>The spec's domain errors are the controller's status code and message.\<close>

definition InvalidCredentials :: "response \<Rightarrow> bool" where
  "InvalidCredentials r \<longleftrightarrow>
     http_status r = 401 \<and> \<not> success r \<and> data r = None \<and>
     (message r = ''Invalid credentials'' \<or> message r = msg_too_many)"


definition InvalidRefreshToken :: "response \<Rightarrow> bool" where
  "InvalidRefreshToken r \<longleftrightarrow> r = fail 401 ''Invalid refresh token''"

text \<open>The stored identity that a lookup by email or by id returns when the store
  answers.\<close>

definition identity_by_email :: "db \<Rightarrow> string \<Rightarrow> user_row option" where
  "identity_by_email d em = find (\<lambda>r. u_email r = em) (users d)"



text \<open>The fields that incrementLoginAttempts and resetLoginAttempts hand to
  \<^verbatim>\<open>this.update\<close>.\<close>

definition failed_fields :: "config \<Rightarrow> env \<Rightarrow> user_row \<Rightarrow> user_fields" where
  "failed_fields c e u = no_fields\<lparr>loginAttempts := Some (login_attempts u + 1),
      lockedUntil := Some (if login_attempts u + 1 \<ge> maxLoginAttempts c
                           then Some (now e + lockoutTime c * 60 * 1000) else None)\<rparr>"

definition reset_fields :: user_fields where
  "reset_fields = no_fields\<lparr>loginAttempts := Some 0, lockedUntil := Some None\<rparr>"

section \<open>A concrete installation\<close>

text \<open>Concrete values on which the model is run: the default configuration of
  config/config.js (three attempts, fifteen minutes), one user, and stand-ins for the
  libraries: a hash that prefixes its input, and tokens that are the secret followed by the
  email. \<open>1793613600000\<close> is 2026-11-02T10:00:00.000Z.\<close>

definition demo_config :: config where
  "demo_config = \<lparr>jwt_secret = ''a-secret'', jwt_refreshSecret = ''r-secret'',
     jwt_expiresIn = ''15m'', jwt_refreshExpiresIn = ''7d'',
     maxLoginAttempts = 3, lockoutTime = 15\<rparr>"

definition demo_env :: "instant \<Rightarrow> env" where
  "demo_env t = \<lparr>now = t, db_error = (\<lambda>_. None),
     bcrypt_hash = (\<lambda>p. ''$2b$12$'' @ p),
     bcrypt_compare = (\<lambda>p h. h = ''$2b$12$'' @ p),
     jwt_sign = (\<lambda>pl secret life. Inr (secret @ '':'' @ p_email pl)),
     jwt_verify = (\<lambda>tok secret.
        if tok = ''r-secret:ana@example.com'' \<and> secret = ''r-secret''
        then Inr \<lparr>p_id = 1, p_email = ''ana@example.com'', p_role = None\<rparr>
        else Inl JsonWebTokenError)\<rparr>"

definition ana :: user_row where
  "ana = \<lparr>u_id = 1, first_name = ''Ana'', last_name = ''Diaz'', u_email = ''ana@example.com'',
     u_password = ''$2b$12$Secret123!'', u_role = ''user'', u_status = ''active'',
     login_attempts = 0, locked_until = None,
     created_at = ''2026-11-01 09:00:00'', updated_at = ''2026-11-01 09:00:00''\<rparr>"

definition demo_db :: db where
  "demo_db = \<lparr>users = [ana], users_seq = 1, refresh_tokens = [], tokens_seq = 0\<rparr>"

definition demo_token :: token_row where
  "demo_token = \<lparr>t_id = 1, token = ''r-secret:ana@example.com'', user_id = 1,
     expires_at = ''2026-11-09T10:00:00.000Z'', t_created_at = ''2026-11-02 10:00:00''\<rparr>"

text \<open>A record of the Excel mirror whose password is a bcrypt hash.\<close>

definition bob_record :: user_fields where
  "bob_record = no_fields\<lparr>firstName := Some ''Bob'', lastName := Some ''Ruiz'',
     email := Some ''bob@example.com'',
     password := Some ''$2b$12$N9qo8uLOickgx2ZMRZoMyeIjZAgcfl7p92ldGxad68LJZdL17lhWy''\<rparr>"


definition ana_locked :: user_row where
  "ana_locked = ana\<lparr>login_attempts := 3, locked_until := Some 1793614502000,
     updated_at := ''2026-11-02 10:00:02''\<rparr>"


section \<open>Properties\<close>

subsection \<open>Helper facts\<close>

lemma storeRefreshToken_fault:
  "db_error e InsertToken = Some err \<Longrightarrow> storeRefreshToken e d tok i = Inl err"
  by (simp add: storeRefreshToken_def)

subsection \<open>Ledger existence check\<close>

text \<open>C5 (fails on the code): the existence check is to answer true only for a record whose
  expiry is strictly later than the query time. Ana logs in on 2026-11-02 at 10:00:00 UTC;
  the ledger row expires seven days later, at 2026-11-09T10:00:00.000Z. Queried at
  2026-11-09 23:00:00 UTC, thirteen hours after the expiry, validateRefreshToken still
  answers true: the stored text has \<open>T\<close> where the text of \<^verbatim>\<open>datetime("now")\<close> has a
  space, and \<open>T\<close> is the greater byte, so on the day of expiry the row compares greater
  at every time of day.\<close>

theorem validateRefreshToken_true_after_expiry:
  "login demo_config (demo_env 1793613600000) demo_db ''ana@example.com'' ''Secret123!'' =
     (ok ''Login successful''
        (Some (LoginData (toJSON ana) ''a-secret:ana@example.com'' ''r-secret:ana@example.com''
                 ''15m'')),
      demo_db\<lparr>refresh_tokens := [demo_token], tokens_seq := 1\<rparr>) \<and>
   expires_at demo_token = toISOString (1793613600000 + 7 * 24 * 60 * 60 * 1000) \<and>
   (1793613600000 + 7 * 24 * 60 * 60 * 1000 :: int) < 1794265200000 \<and>
   sqlite_datetime 1794265200000 = ''2026-11-09 23:00:00'' \<and>
   validateRefreshToken (demo_env 1794265200000)
     (demo_db\<lparr>refresh_tokens := [demo_token], tokens_seq := 1\<rparr>)
     ''r-secret:ana@example.com'' 1 = Inr True"
  by code_simp

subsection \<open>Login and the ledger write\<close>

text \<open>C6: when the ledger write of the refresh token fails, login returns no tokens: the
  response carries no data and is not a success, whatever the request; and on the path
  where both tokens were minted the response is the 500 of the \<^verbatim>\<open>catch\<close>, carrying
  the store's error.\<close>

theorem login_ledger_write_failure:
  assumes "db_error e InsertToken = Some err"
  shows "data (fst (login c e d em pw)) = None \<and> \<not> success (fst (login c e d em pw)) \<and>
         http_status (fst (login c e d em pw)) \<noteq> 200 \<and>
         (\<forall>user user' d' accessToken refreshToken.
            findByEmail e d em = Inr (Some user) \<and> u_status user = ''active'' \<and>
            \<not> isLocked e user \<and> verifyPassword e user pw \<and>
            (if login_attempts user > 0 then resetLoginAttempts e d user else Inr (user, d))
              = Inr (user', d') \<and>
            jwt_sign e \<lparr>p_id = u_id user', p_email = u_email user', p_role = Some (u_role user')\<rparr>
              (jwt_secret c) (jwt_expiresIn c) = Inr accessToken \<and>
            jwt_sign e \<lparr>p_id = u_id user', p_email = u_email user', p_role = None\<rparr>
              (jwt_refreshSecret c) (jwt_refreshExpiresIn c) = Inr refreshToken
            \<longrightarrow> login c e d em pw = (server_error err, d'))"
proof -
  have st: "\<And>d tok i. storeRefreshToken e d tok i = Inl err"
    using assms by (rule storeRefreshToken_fault)
  have a: "data (fst (login c e d em pw)) = None \<and> \<not> success (fst (login c e d em pw)) \<and>
         http_status (fst (login c e d em pw)) \<noteq> 200"
    by (simp add: login_def st fail_def server_error_def
             split: sum.splits option.splits prod.splits)
  have b: "login c e d em pw = (server_error err, d')"
    if "findByEmail e d em = Inr (Some user)" "u_status user = ''active''"
       "\<not> isLocked e user" "verifyPassword e user pw"
       "(if login_attempts user > 0 then resetLoginAttempts e d user else Inr (user, d))
              = Inr (user', d')"
       "jwt_sign e \<lparr>p_id = u_id user', p_email = u_email user', p_role = Some (u_role user')\<rparr>
              (jwt_secret c) (jwt_expiresIn c) = Inr accessToken"
       "jwt_sign e \<lparr>p_id = u_id user', p_email = u_email user', p_role = None\<rparr>
              (jwt_refreshSecret c) (jwt_refreshExpiresIn c) = Inr refreshToken"
    for user user' d' accessToken refreshToken
    using that by (simp add: login_def st)
  show ?thesis using a b by blast
qed

theorem login_ledger_write_failure_witness:
  "login demo_config
     ((demo_env 1793613600000)
        \<lparr>db_error := (\<lambda>op. if op = InsertToken then Some ''SQLITE_IOERR'' else None)\<rparr>)
     demo_db ''ana@example.com'' ''Secret123!'' = (server_error ''SQLITE_IOERR'', demo_db)"
proof -
  let ?e = "(demo_env 1793613600000)
        \<lparr>db_error := (\<lambda>op. if op = InsertToken then Some ''SQLITE_IOERR'' else None)\<rparr>"
  have f: "db_error ?e InsertToken = Some ''SQLITE_IOERR''" by simp
  have h: "findByEmail ?e demo_db ''ana@example.com'' = Inr (Some ana) \<and>
           u_status ana = ''active'' \<and> \<not> isLocked ?e ana \<and>
           verifyPassword ?e ana ''Secret123!'' \<and>
           (if login_attempts ana > 0 then resetLoginAttempts ?e demo_db ana
            else Inr (ana, demo_db)) = Inr (ana, demo_db) \<and>
           jwt_sign ?e \<lparr>p_id = u_id ana, p_email = u_email ana, p_role = Some (u_role ana)\<rparr>
             (jwt_secret demo_config) (jwt_expiresIn demo_config)
             = Inr ''a-secret:ana@example.com'' \<and>
           jwt_sign ?e \<lparr>p_id = u_id ana, p_email = u_email ana, p_role = None\<rparr>
             (jwt_refreshSecret demo_config) (jwt_refreshExpiresIn demo_config)
             = Inr ''r-secret:ana@example.com''"
    by (simp add: findByEmail_def demo_env_def demo_db_def ana_def isLocked_def
          verifyPassword_def demo_config_def)
  show ?thesis
    using login_ledger_write_failure
            [OF f, of demo_config demo_db "''ana@example.com''" "''Secret123!''"] h
    by blast
qed

subsection \<open>Logout\<close>

text \<open>C9: logout is idempotent. While the store answers, logout with any body (a token,
  issued or not, or none) responds with success, a second logout with the same body
  responds with success again and changes nothing more; and after the first one no ledger
  row with the supplied token is left, the other rows being kept.\<close>

theorem logout_idempotent:
  assumes "db_error e1 DeleteToken = None" and "db_error e2 DeleteToken = None"
  shows "(let (r1, d1) = logout e1 d body; (r2, d2) = logout e2 d1 body
          in r1 = ok ''Logout successful'' None \<and> r2 = ok ''Logout successful'' None \<and>
             d2 = d1 \<and>
             (\<forall>t. body = Some t \<and> t \<noteq> [] \<longrightarrow>
                d1 = d\<lparr>refresh_tokens := filter (\<lambda>r. token r \<noteq> t) (refresh_tokens d)\<rparr> \<and>
                (\<forall>r \<in> set (refresh_tokens d1). token r \<noteq> t)))"
  using assms
  by (auto simp: logout_def removeRefreshToken_def truthy_def or_default_def Let_def
           split: option.splits)

theorem logout_idempotent_witness:
  "logout (demo_env 1793613600000)
     (demo_db\<lparr>refresh_tokens := [demo_token, demo_token\<lparr>t_id := 2, token := ''other''\<rparr>]\<rparr>)
     (Some ''r-secret:ana@example.com'')
     = (ok ''Logout successful'' None,
        demo_db\<lparr>refresh_tokens := [demo_token\<lparr>t_id := 2, token := ''other''\<rparr>]\<rparr>) \<and>
   logout (demo_env 1793613700000)
     (demo_db\<lparr>refresh_tokens := [demo_token\<lparr>t_id := 2, token := ''other''\<rparr>]\<rparr>)
     (Some ''r-secret:ana@example.com'')
     = (ok ''Logout successful'' None,
        demo_db\<lparr>refresh_tokens := [demo_token\<lparr>t_id := 2, token := ''other''\<rparr>]\<rparr>)"
proof -
  let ?d = "demo_db\<lparr>refresh_tokens := [demo_token, demo_token\<lparr>t_id := 2, token := ''other''\<rparr>]\<rparr>"
  have f: "db_error (demo_env 1793613600000) DeleteToken = None"
          "db_error (demo_env 1793613700000) DeleteToken = None"
    by (simp_all add: demo_env_def)
  have g: "?d\<lparr>refresh_tokens :=
             filter (\<lambda>r. token r \<noteq> ''r-secret:ana@example.com'') (refresh_tokens ?d)\<rparr>
           = demo_db\<lparr>refresh_tokens := [demo_token\<lparr>t_id := 2, token := ''other''\<rparr>]\<rparr>"
    by (simp add: demo_db_def demo_token_def)
  show ?thesis
    using logout_idempotent [OF f, of ?d "Some ''r-secret:ana@example.com''"] g
    by (auto simp: Let_def split: prod.splits)
qed

subsection \<open>Bulk mirror\<close>

lemma find_append_new:
  "\<forall>r \<in> set xs. \<not> P r \<Longrightarrow> P x \<Longrightarrow> find P (xs @ [x]) = Some x"
  by (induction xs) auto

lemma find_absent: "\<forall>r \<in> set xs. \<not> P r \<Longrightarrow> find P xs = None"
  by (induction xs) auto

text \<open>C3 (fails on the code): an external record with a new email and a non-empty,
  already hashed password is to be stored with that password unchanged. The code hands
  the record to User.create, which hashes whatever password it is given: the stored
  credential is \<^verbatim>\<open>bcrypt.hash\<close> of the incoming value, not the incoming value.\<close>

theorem reconcile_hashes_incoming_password:
  assumes "email x = Some em" "em \<noteq> []" "password x = Some pw" "pw \<noteq> []"
      and "firstName x = Some fn" "lastName x = Some ln"
      and "\<forall>r \<in> set (users d). u_email r \<noteq> em"
      and "db_error e SelectUserByEmail = None" "db_error e InsertUser = None"
  shows "\<exists>row. initializeUsersFromExcel e d [x] 0 =
            (1, d\<lparr>users := users d @ [row], users_seq := Suc (users_seq d)\<rparr>) \<and>
          u_email row = em \<and> u_password row = bcrypt_hash e pw \<and>
          findByEmail e (snd (initializeUsersFromExcel e d [x] 0)) em = Inr (Some row)"
proof -
  have a: "find (\<lambda>r. u_email r = em) (users d) = None"
    using assms(7) by (simp add: find_absent)
  have b: "\<not> (\<exists>r \<in> set (users d). u_email r = em)" using assms(7) by blast
  let ?row = "\<lparr>u_id = Suc (users_seq d), first_name = fn, last_name = ln, u_email = em,
                u_password = bcrypt_hash e pw,
                u_role = or_default (Some (or_default (role x) ''user'')) ''user'',
                u_status = or_default (Some (or_default (status x) ''active'')) ''active'',
                login_attempts = 0, locked_until = None,
                created_at = sqlite_datetime (now e),
                updated_at = sqlite_datetime (now e)\<rparr>"
  have c: "create e d (no_fields\<lparr>firstName := firstName x, lastName := lastName x,
              email := email x, password := password x,
              role := Some (or_default (role x) ''user''),
              status := Some (or_default (status x) ''active'')\<rparr>)
           = Inr (Suc (users_seq d),
                  d\<lparr>users := users d @ [?row], users_seq := Suc (users_seq d)\<rparr>)"
    using assms b by (simp add: create_def Let_def)
  have r: "initializeUsersFromExcel e d [x] 0 =
            (1, d\<lparr>users := users d @ [?row], users_seq := Suc (users_seq d)\<rparr>)"
    using assms a c by (simp add: findByEmail_def truthy_def)
  have f: "find (\<lambda>r. u_email r = em) (users d @ [?row]) = Some ?row"
    using assms(7) by (intro find_append_new) auto
  show ?thesis
    apply (rule exI [of _ ?row])
    using r f assms(8) by (simp add: findByEmail_def)
qed

theorem reconcile_hashes_incoming_password_witness:
  "findByEmail (demo_env 1793613600000)
     (snd (initializeUsersFromExcel (demo_env 1793613600000) demo_db [bob_record] 0))
     ''bob@example.com''
   = Inr (Some \<lparr>u_id = 2, first_name = ''Bob'', last_name = ''Ruiz'',
            u_email = ''bob@example.com'',
            u_password = ''$2b$12$$2b$12$N9qo8uLOickgx2ZMRZoMyeIjZAgcfl7p92ldGxad68LJZdL17lhWy'',
            u_role = ''user'', u_status = ''active'', login_attempts = 0, locked_until = None,
            created_at = ''2026-11-02 10:00:00'', updated_at = ''2026-11-02 10:00:00''\<rparr>)"
proof -
  have h: "email bob_record = Some ''bob@example.com''" "''bob@example.com'' \<noteq> []"
    "password bob_record = Some ''$2b$12$N9qo8uLOickgx2ZMRZoMyeIjZAgcfl7p92ldGxad68LJZdL17lhWy''"
    "''$2b$12$N9qo8uLOickgx2ZMRZoMyeIjZAgcfl7p92ldGxad68LJZdL17lhWy'' \<noteq> []"
    "firstName bob_record = Some ''Bob''" "lastName bob_record = Some ''Ruiz''"
    "\<forall>r \<in> set (users demo_db). u_email r \<noteq> ''bob@example.com''"
    "db_error (demo_env 1793613600000) SelectUserByEmail = None"
    "db_error (demo_env 1793613600000) InsertUser = None"
    by (simp_all add: bob_record_def no_fields_def demo_db_def ana_def demo_env_def)
  have t: "sqlite_datetime 1793613600000 = ''2026-11-02 10:00:00''" by code_simp
  from reconcile_hashes_incoming_password [OF h]
  obtain row where r: "initializeUsersFromExcel (demo_env 1793613600000) demo_db [bob_record] 0 =
            (1, demo_db\<lparr>users := users demo_db @ [row], users_seq := Suc (users_seq demo_db)\<rparr>)"
     "u_password row = bcrypt_hash (demo_env 1793613600000) ''$2b$12$N9qo8uLOickgx2ZMRZoMyeIjZAgcfl7p92ldGxad68LJZdL17lhWy''"
     "findByEmail (demo_env 1793613600000)
     (snd (initializeUsersFromExcel (demo_env 1793613600000) demo_db [bob_record] 0))
     ''bob@example.com'' = Inr (Some row)"
    by blast
  have "row = \<lparr>u_id = 2, first_name = ''Bob'', last_name = ''Ruiz'',
            u_email = ''bob@example.com'',
            u_password = ''$2b$12$$2b$12$N9qo8uLOickgx2ZMRZoMyeIjZAgcfl7p92ldGxad68LJZdL17lhWy'',
            u_role = ''user'', u_status = ''active'', login_attempts = 0, locked_until = None,
            created_at = ''2026-11-02 10:00:00'', updated_at = ''2026-11-02 10:00:00''\<rparr>"
    using r(1) 
    by (auto simp: bob_record_def no_fields_def demo_db_def ana_def demo_env_def findByEmail_def
          create_def truthy_def or_default_def t numeral_2_eq_2)
  with r(3) show ?thesis by simp
qed

subsection \<open>Partial update\<close>



subsection \<open>Lookups after an update\<close>

lemma find_map_same:
  assumes "find P xs = Some u" and "\<And>r. P (f r) = P r"
  shows "find P (map f xs) = Some (f u)"
  using assms(1) by (induction xs) (auto simp: assms(2))


lemma update_no_email:
  assumes "db_error e UpdateUser = None" and "email upd = None"
  shows "update e d this upd =
           Inr (\<exists>r \<in> set (users d). u_id r = u_id this,
                d\<lparr>users := map (\<lambda>r. if u_id r = u_id this then set_fields e upd r else r)
                                (users d)\<rparr>)"
  using assms by (simp add: update_def)


lemma identity_after_update:
  assumes "identity_by_email d em = Some u" and "email upd = None"
  shows "identity_by_email
           (d\<lparr>users := map (\<lambda>r. if u_id r = u_id u then set_fields e upd r else r) (users d)\<rparr>)
           em = Some (set_fields e upd u)"
proof -
  have "find (\<lambda>r. u_email r = em)
          (map (\<lambda>r. if u_id r = u_id u then set_fields e upd r else r) (users d))
        = Some ((\<lambda>r. if u_id r = u_id u then set_fields e upd r else r) u)"
    using assms(1) unfolding identity_by_email_def
    by (rule find_map_same) (simp add: set_fields_def assms(2))
  then show ?thesis by (simp add: identity_by_email_def)
qed

subsection \<open>The paths of login\<close>

lemma login_wrong_password:
  assumes "identity_by_email d em = Some u" "u_status u = ''active''" "\<not> isLocked e u"
      and "\<not> verifyPassword e u pw"
      and "db_error e SelectUserByEmail = None" "db_error e UpdateUser = None"
  shows "login c e d em pw =
           (fail 401 (if login_attempts u + 1 \<ge> maxLoginAttempts c then msg_too_many
                      else ''Invalid credentials''),
            d\<lparr>users := map (\<lambda>r. if u_id r = u_id u then set_fields e (failed_fields c e u) r
                                  else r) (users d)\<rparr>)"
proof -
  have f: "findByEmail e d em = Inr (Some u)"
    using assms(1,5) by (simp add: findByEmail_def identity_by_email_def)
  have i: "incrementLoginAttempts c e d u =
             Inr (u\<lparr>login_attempts := login_attempts u + 1,
                    locked_until := (if login_attempts u + 1 \<ge> maxLoginAttempts c
                           then Some (now e + lockoutTime c * 60 * 1000) else None)\<rparr>,
                  d\<lparr>users := map (\<lambda>r. if u_id r = u_id u
                                        then set_fields e (failed_fields c e u) r else r)
                                  (users d)\<rparr>)"
    using assms(6)
    by (simp add: incrementLoginAttempts_def Let_def update_no_email no_fields_def
          failed_fields_def)
  show ?thesis using assms(2,3,4) by (simp add: login_def f i)
qed


lemma login_unknown_email:
  assumes "identity_by_email d em = None" "db_error e SelectUserByEmail = None"
  shows "login c e d em pw = (fail 401 ''Invalid credentials'', d)"
  using assms by (simp add: login_def findByEmail_def identity_by_email_def)


lemma storeRefreshToken_users:
  "storeRefreshToken e d tok i = Inr (k, d') \<Longrightarrow> users d' = users d"
  by (auto simp: storeRefreshToken_def Let_def split: option.splits)

lemma resetLoginAttempts_Inr:
  assumes "resetLoginAttempts e d u = Inr (u1, d1)"
  shows "d1 = d\<lparr>users := map (\<lambda>r. if u_id r = u_id u then set_fields e reset_fields r else r)
                              (users d)\<rparr>"
  using assms
  by (auto simp: resetLoginAttempts_def update_def reset_fields_def no_fields_def
           split: sum.splits option.splits if_splits)

lemma login_200_inversion:
  assumes "login c e d em pw = (r, d')" and "http_status r = 200"
  shows "\<exists>u u1 d1. findByEmail e d em = Inr (Some u) \<and> u_status u = ''active'' \<and>
           \<not> isLocked e u \<and> verifyPassword e u pw \<and>
           (if login_attempts u > 0 then resetLoginAttempts e d u else Inr (u, d))
             = Inr (u1, d1) \<and> users d' = users d1"
proof -
  obtain u where f: "findByEmail e d em = Inr (Some u)"
    using assms
    by (cases "findByEmail e d em")
       (auto simp: login_def server_error_def fail_def split: option.splits)
  have a: "u_status u = ''active''" "\<not> isLocked e u" "verifyPassword e u pw"
    using assms
    by (auto simp: login_def f server_error_def fail_def split: if_splits sum.splits)
  obtain u1 d1 where rs: "(if login_attempts u > 0 then resetLoginAttempts e d u
                           else Inr (u, d)) = Inr (u1, d1)"
    using assms a
    by (cases "if login_attempts u > 0 then resetLoginAttempts e d u else Inr (u, d)")
       (auto simp: login_def f server_error_def)
  have "users d' = users d1"
    using assms a rs
    by (auto simp: login_def f server_error_def ok_def
             split: sum.splits dest: storeRefreshToken_users)
  with f a rs show ?thesis by blast
qed

subsection \<open>Lockout\<close>





subsection \<open>Uniform failure\<close>

text \<open>C7 (amended): a login for an email that is not in the store and a login with a wrong
  password for an active, unlocked identity are both answered 401 InvalidCredentials. The
  two responses are equal as long as the wrong-password attempt leaves the failure count
  below the threshold; the attempt that reaches the threshold is answered with the message
  \<^verbatim>\<open>Too many failed attempts. Account has been temporarily locked.\<close> instead, which
  an unknown email never gets.\<close>

theorem login_failure_uniform_below_threshold:
  assumes "identity_by_email d em1 = None" and "db_error e1 SelectUserByEmail = None"
      and "identity_by_email d em2 = Some u" and "u_status u = ''active''"
      and "\<not> isLocked e2 u" and "\<not> verifyPassword e2 u pw2"
      and "db_error e2 SelectUserByEmail = None" and "db_error e2 UpdateUser = None"
  shows "InvalidCredentials (fst (login c e1 d em1 pw1)) \<and>
         InvalidCredentials (fst (login c e2 d em2 pw2)) \<and>
         fst (login c e1 d em1 pw1) = fail 401 ''Invalid credentials'' \<and>
         (login_attempts u + 1 < maxLoginAttempts c \<longrightarrow>
            fst (login c e2 d em2 pw2) = fst (login c e1 d em1 pw1)) \<and>
         (maxLoginAttempts c \<le> login_attempts u + 1 \<longrightarrow>
            fst (login c e2 d em2 pw2) = fail 401 msg_too_many)"
  using login_unknown_email [OF assms(1,2), of c pw1]
        login_wrong_password [OF assms(3-8), of c]
  by (simp add: InvalidCredentials_def fail_def)

theorem login_failure_uniform_below_threshold_witness:
  "fst (login demo_config (demo_env 1793613600000) demo_db ''ana@example.com'' ''guess'')
   = fst (login demo_config (demo_env 1793613600000) demo_db ''nobody@example.com'' ''guess'') \<and>
   fst (login demo_config (demo_env 1793613600000) (demo_db\<lparr>users := [ana\<lparr>login_attempts := 2\<rparr>]\<rparr>)
          ''ana@example.com'' ''guess'') = fail 401 msg_too_many"
proof -
  have h: "identity_by_email demo_db ''nobody@example.com'' = None"
    "db_error (demo_env 1793613600000) SelectUserByEmail = None"
    "identity_by_email demo_db ''ana@example.com'' = Some ana" "u_status ana = ''active''"
    "\<not> isLocked (demo_env 1793613600000) ana"
    "\<not> verifyPassword (demo_env 1793613600000) ana ''guess''"
    "db_error (demo_env 1793613600000) SelectUserByEmail = None"
    "db_error (demo_env 1793613600000) UpdateUser = None"
    by (simp_all add: identity_by_email_def demo_db_def ana_def demo_env_def isLocked_def
          verifyPassword_def)
  let ?d = "demo_db\<lparr>users := [ana\<lparr>login_attempts := 2\<rparr>]\<rparr>"
  have g: "identity_by_email ?d ''nobody@example.com'' = None"
    "db_error (demo_env 1793613600000) SelectUserByEmail = None"
    "identity_by_email ?d ''ana@example.com'' = Some (ana\<lparr>login_attempts := 2\<rparr>)"
    "u_status (ana\<lparr>login_attempts := 2\<rparr>) = ''active''"
    "\<not> isLocked (demo_env 1793613600000) (ana\<lparr>login_attempts := 2\<rparr>)"
    "\<not> verifyPassword (demo_env 1793613600000) (ana\<lparr>login_attempts := 2\<rparr>) ''guess''"
    "db_error (demo_env 1793613600000) SelectUserByEmail = None"
    "db_error (demo_env 1793613600000) UpdateUser = None"
    by (simp_all add: identity_by_email_def demo_db_def ana_def demo_env_def isLocked_def
          verifyPassword_def)
  show ?thesis
    using login_failure_uniform_below_threshold [OF h, of demo_config "''guess''"]
          login_failure_uniform_below_threshold [OF g, of demo_config "''guess''"]
    by (simp add: demo_config_def ana_def)
qed

text \<open>C7 as stated fails: with two failures already counted and a threshold of three, the
  wrong password for Ana's email and the same guess for an unknown email get different
  responses.\<close>

theorem login_failure_differs_at_threshold:
  "findByEmail (demo_env 1793613600000) (demo_db\<lparr>users := [ana\<lparr>login_attempts := 2\<rparr>]\<rparr>)
     ''nobody@example.com'' = Inr None \<and>
   findByEmail (demo_env 1793613600000) (demo_db\<lparr>users := [ana\<lparr>login_attempts := 2\<rparr>]\<rparr>)
     ''ana@example.com'' = Inr (Some (ana\<lparr>login_attempts := 2\<rparr>)) \<and>
   u_status ana = ''active'' \<and>
   \<not> isLocked (demo_env 1793613600000) (ana\<lparr>login_attempts := 2\<rparr>) \<and>
   \<not> verifyPassword (demo_env 1793613600000) (ana\<lparr>login_attempts := 2\<rparr>) ''guess'' \<and>
   fst (login demo_config (demo_env 1793613600000)
          (demo_db\<lparr>users := [ana\<lparr>login_attempts := 2\<rparr>]\<rparr>) ''nobody@example.com'' ''guess'')
     = fail 401 ''Invalid credentials'' \<and>
   fst (login demo_config (demo_env 1793613600000)
          (demo_db\<lparr>users := [ana\<lparr>login_attempts := 2\<rparr>]\<rparr>) ''ana@example.com'' ''guess'')
     = fail 401 ''Too many failed attempts. Account has been temporarily locked.'' \<and>
   fst (login demo_config (demo_env 1793613600000)
          (demo_db\<lparr>users := [ana\<lparr>login_attempts := 2\<rparr>]\<rparr>) ''ana@example.com'' ''guess'')
     \<noteq> fst (login demo_config (demo_env 1793613600000)
          (demo_db\<lparr>users := [ana\<lparr>login_attempts := 2\<rparr>]\<rparr>) ''nobody@example.com'' ''guess'')"
  by code_simp

subsection \<open>Successful login\<close>

text \<open>C4 (amended): a login answered with 200 is one for an active identity that is not
  locked and whose password verifies. If the identity's failure count was positive, the
  stored identity afterwards has failure count 0 and no \<^verbatim>\<open>lockedUntil\<close>. If the count
  was not positive the login writes nothing to the identity: the row is the same as
  before, so a count of 0 stays 0 and a \<^verbatim>\<open>lockedUntil\<close> that was set stays set.\<close>

theorem login_success_resets:
  assumes "login c e d em pw = (r, d')" and "http_status r = 200"
  shows "\<exists>u u'. identity_by_email d em = Some u \<and> identity_by_email d' em = Some u' \<and>
           u_status u = ''active'' \<and> \<not> isLocked e u \<and> verifyPassword e u pw \<and>
           (0 < login_attempts u \<longrightarrow> login_attempts u' = 0 \<and> locked_until u' = None) \<and>
           (login_attempts u \<le> 0 \<longrightarrow> u' = u)"
proof -
  from login_200_inversion [OF assms]
  obtain u u1 d1 where f: "findByEmail e d em = Inr (Some u)"
    and a: "u_status u = ''active''" "\<not> isLocked e u" "verifyPassword e u pw"
    and rs: "(if login_attempts u > 0 then resetLoginAttempts e d u else Inr (u, d))
               = Inr (u1, d1)"
    and us: "users d' = users d1"
    by blast
  from f have i: "identity_by_email d em = Some u"
    by (auto simp: findByEmail_def identity_by_email_def split: option.splits)
  show ?thesis
  proof (cases "0 < login_attempts u")
    case True
    with rs have "resetLoginAttempts e d u = Inr (u1, d1)" by simp
    then have d1: "d1 = d\<lparr>users := map (\<lambda>r. if u_id r = u_id u
                                            then set_fields e reset_fields r else r)
                                    (users d)\<rparr>"
      by (rule resetLoginAttempts_Inr)
    have "email reset_fields = None" by (simp add: reset_fields_def no_fields_def)
    with i have "identity_by_email d1 em = Some (set_fields e reset_fields u)"
      unfolding d1 by (rule identity_after_update)
    with us have "identity_by_email d' em = Some (set_fields e reset_fields u)"
      by (simp add: identity_by_email_def)
    with i a True show ?thesis
      by (simp add: set_fields_def reset_fields_def no_fields_def)
  next
    case False
    with rs have "d1 = d" by simp
    with us i have "identity_by_email d' em = Some u" by (simp add: identity_by_email_def)
    with i a False show ?thesis by simp
  qed
qed

theorem login_success_resets_witness:
  "login demo_config (demo_env 1793614600000) (demo_db\<lparr>users := [ana_locked]\<rparr>)
     ''ana@example.com'' ''Secret123!''
   = (ok ''Login successful''
        (Some (LoginData (toJSON (ana_locked\<lparr>login_attempts := 0, locked_until := None\<rparr>))
                 ''a-secret:ana@example.com'' ''r-secret:ana@example.com'' ''15m'')),
      demo_db\<lparr>users := [ana\<lparr>updated_at := ''2026-11-02 10:16:40''\<rparr>],
              refresh_tokens := [demo_token\<lparr>expires_at := ''2026-11-09T10:16:40.000Z'',
                                   t_created_at := ''2026-11-02 10:16:40''\<rparr>],
              tokens_seq := 1\<rparr>) \<and>
   identity_by_email (demo_db\<lparr>users := [ana\<lparr>updated_at := ''2026-11-02 10:16:40''\<rparr>],
              refresh_tokens := [demo_token\<lparr>expires_at := ''2026-11-09T10:16:40.000Z'',
                                   t_created_at := ''2026-11-02 10:16:40''\<rparr>],
              tokens_seq := 1\<rparr>) ''ana@example.com''
   = Some (ana\<lparr>updated_at := ''2026-11-02 10:16:40''\<rparr>)"
proof -
  have l: "login demo_config (demo_env 1793614600000) (demo_db\<lparr>users := [ana_locked]\<rparr>)
     ''ana@example.com'' ''Secret123!''
   = (ok ''Login successful''
        (Some (LoginData (toJSON (ana_locked\<lparr>login_attempts := 0, locked_until := None\<rparr>))
                 ''a-secret:ana@example.com'' ''r-secret:ana@example.com'' ''15m'')),
      demo_db\<lparr>users := [ana\<lparr>updated_at := ''2026-11-02 10:16:40''\<rparr>],
              refresh_tokens := [demo_token\<lparr>expires_at := ''2026-11-09T10:16:40.000Z'',
                                   t_created_at := ''2026-11-02 10:16:40''\<rparr>],
              tokens_seq := 1\<rparr>)"
    by code_simp
  have s: "http_status (ok ''Login successful''
        (Some (LoginData (toJSON (ana_locked\<lparr>login_attempts := 0, locked_until := None\<rparr>))
                 ''a-secret:ana@example.com'' ''r-secret:ana@example.com'' ''15m''))) = 200"
    by (simp add: ok_def)
  have i: "identity_by_email (demo_db\<lparr>users := [ana_locked]\<rparr>) ''ana@example.com''
             = Some ana_locked" "0 < login_attempts ana_locked"
    by (simp_all add: identity_by_email_def ana_locked_def ana_def)
  from login_success_resets [OF l s] i
  obtain u' where "identity_by_email (demo_db\<lparr>users := [ana\<lparr>updated_at := ''2026-11-02 10:16:40''\<rparr>],
              refresh_tokens := [demo_token\<lparr>expires_at := ''2026-11-09T10:16:40.000Z'',
                                   t_created_at := ''2026-11-02 10:16:40''\<rparr>],
              tokens_seq := 1\<rparr>) ''ana@example.com'' = Some u'"
     "login_attempts u' = 0" "locked_until u' = None"
    by auto
  then show ?thesis using l by (auto simp: identity_by_email_def ana_def)
qed

text \<open>C4 as stated fails: Ana, locked with three failures, sends
  \<^verbatim>\<open>PUT /users/1 {loginAttempts: 0}\<close> with an access token from an earlier session;
  the row then has count 0 and the lock time still set. After the lock has run out the
  same user logs in with the right password: the login succeeds and \<^verbatim>\<open>lockedUntil\<close> is still set.\<close>

theorem login_success_keeps_stale_lock:
  "updateUser (demo_env 1793613660000) (demo_db\<lparr>users := [ana_locked]\<rparr>) ana_locked 1
     (no_fields\<lparr>loginAttempts := Some 0\<rparr>)
   = (ok ''User updated successfully''
        (Some (UserData (toJSON (ana_locked\<lparr>login_attempts := 0,
                                   updated_at := ''2026-11-02 10:01:00''\<rparr>)))),
      demo_db\<lparr>users := [ana_locked\<lparr>login_attempts := 0,
                                     updated_at := ''2026-11-02 10:01:00''\<rparr>]\<rparr>) \<and>
   http_status (fst (login demo_config (demo_env 1793614600000)
      (demo_db\<lparr>users := [ana_locked\<lparr>login_attempts := 0,
                                     updated_at := ''2026-11-02 10:01:00''\<rparr>]\<rparr>)
      ''ana@example.com'' ''Secret123!'')) = 200 \<and>
   identity_by_email (snd (login demo_config (demo_env 1793614600000)
      (demo_db\<lparr>users := [ana_locked\<lparr>login_attempts := 0,
                                     updated_at := ''2026-11-02 10:01:00''\<rparr>]\<rparr>)
      ''ana@example.com'' ''Secret123!'')) ''ana@example.com''
   = Some (ana_locked\<lparr>login_attempts := 0, updated_at := ''2026-11-02 10:01:00''\<rparr>) \<and>
   locked_until (ana_locked\<lparr>login_attempts := 0, updated_at := ''2026-11-02 10:01:00''\<rparr>)
   = Some 1793614502000"
  by code_simp

subsection \<open>Update through the controller\<close>






subsection \<open>Refresh\<close>

lemma find_Some_mem: "find P xs = Some x \<Longrightarrow> x \<in> set xs \<and> P x"
  by (induction xs) (auto split: if_splits)

lemma find_after_delete:
  "find (\<lambda>r. token r = t \<and> Q r) (filter (\<lambda>r. token r \<noteq> t) xs) = None"
  by (induction xs) auto

lemma validateRefreshToken_row:
  assumes "validateRefreshToken e d t uid = Inr True"
  shows "\<exists>row \<in> set (refresh_tokens d). token row = t \<and> user_id row = uid"
proof -
  from assms obtain row where
    "find (\<lambda>r. token r = t \<and> user_id r = uid \<and>
               text_gt (expires_at r) (sqlite_datetime (now e))) (refresh_tokens d) = Some row"
    by (auto simp: validateRefreshToken_def split: option.splits)
  from find_Some_mem [OF this] show ?thesis by blast
qed

lemma validateRefreshToken_after_delete:
  "validateRefreshToken e (d\<lparr>refresh_tokens := filter (\<lambda>r. token r \<noteq> t) (refresh_tokens d)\<rparr>)
     t uid \<noteq> Inr True"
  by (simp add: validateRefreshToken_def find_after_delete split: option.splits)

lemma refreshToken_not_in_ledger:
  assumes "\<And>uid. validateRefreshToken e d t uid \<noteq> Inr True" and "t \<noteq> []"
  shows "refreshToken c e d (Some t) = fail 401 ''Invalid refresh token''"
proof (cases "jwt_verify e t (jwt_refreshSecret c)")
  case (Inl a)
  with assms(2) show ?thesis by (simp add: refreshToken_def truthy_def or_default_def)
next
  case (Inr decoded)
  show ?thesis
  proof (cases "validateRefreshToken e d t (p_id decoded)")
    case (Inl a)
    with assms(2) Inr show ?thesis by (simp add: refreshToken_def truthy_def or_default_def)
  next
    case vr: (Inr b)
    with assms(1) [of "p_id decoded"] have "\<not> b" by auto
    with assms(2) Inr vr show ?thesis by (simp add: refreshToken_def truthy_def or_default_def)
  qed
qed

lemma logout_200:
  assumes "logout e d (Some t) = (r, d')" and "t \<noteq> []" and "http_status r = 200"
  shows "d' = d\<lparr>refresh_tokens := filter (\<lambda>r. token r \<noteq> t) (refresh_tokens d)\<rparr>"
  using assms
  by (auto simp: logout_def removeRefreshToken_def truthy_def or_default_def server_error_def
           split: option.splits)

lemma refreshToken_success_iff:
  "(\<exists>accessToken. refreshToken c e d body =
        ok ''Token refreshed successfully'' (Some (RefreshData accessToken (jwt_expiresIn c))))
   \<longleftrightarrow>
   (\<exists>t decoded user accessToken.
        body = Some t \<and> t \<noteq> [] \<and>
        jwt_verify e t (jwt_refreshSecret c) = Inr decoded \<and>
        validateRefreshToken e d t (p_id decoded) = Inr True \<and>
        findById e d (p_id decoded) = Inr (Some user) \<and> u_status user = ''active'' \<and>
        jwt_sign e \<lparr>p_id = u_id user, p_email = u_email user, p_role = Some (u_role user)\<rparr>
          (jwt_secret c) (jwt_expiresIn c) = Inr accessToken)"
  (is "?L \<longleftrightarrow> ?R")
proof
  assume ?R
  then show ?L by (auto simp: refreshToken_def truthy_def or_default_def)
next
  assume ?L
  then obtain at where l: "refreshToken c e d body =
        ok ''Token refreshed successfully'' (Some (RefreshData at (jwt_expiresIn c)))"
    by blast
  then obtain t where b: "body = Some t" "t \<noteq> []"
    by (cases body) (auto simp: refreshToken_def truthy_def fail_def ok_def split: if_splits)
  then have tr: "truthy body" "or_default body [] = t"
    by (simp_all add: truthy_def or_default_def)
  obtain decoded where v: "jwt_verify e t (jwt_refreshSecret c) = Inr decoded"
    using l by (cases "jwt_verify e t (jwt_refreshSecret c)")
               (auto simp: refreshToken_def tr fail_def ok_def)
  have x: "validateRefreshToken e d t (p_id decoded) = Inr True"
    using l by (cases "validateRefreshToken e d t (p_id decoded)")
               (auto simp: refreshToken_def tr v fail_def ok_def split: if_splits)
  obtain user where f: "findById e d (p_id decoded) = Inr (Some user)"
    using l by (cases "findById e d (p_id decoded)")
               (auto simp: refreshToken_def tr v x fail_def ok_def split: option.splits)
  have a: "u_status user = ''active''"
    using l by (auto simp: refreshToken_def tr v x f fail_def ok_def split: if_splits)
  have s: "jwt_sign e \<lparr>p_id = u_id user, p_email = u_email user, p_role = Some (u_role user)\<rparr>
          (jwt_secret c) (jwt_expiresIn c) = Inr at"
    using l a
    by (cases "jwt_sign e \<lparr>p_id = u_id user, p_email = u_email user,
                 p_role = Some (u_role user)\<rparr> (jwt_secret c) (jwt_expiresIn c)")
       (auto simp: refreshToken_def tr v x f fail_def ok_def)
  from b v x f a s show ?R by blast
qed

lemma refreshToken_status:
  "http_status (refreshToken c e d body) = 200 \<or>
   http_status (refreshToken c e d body) = 401 \<and> data (refreshToken c e d body) = None"
  by (simp add: refreshToken_def fail_def ok_def Let_def split: sum.splits option.splits)

text \<open>C1 (amended): refresh returns a new access token if and only if the token is
  present and non-empty, \<^verbatim>\<open>jwt.verify\<close> accepts it under the refresh secret (signature
  and the token's own expiry), the ledger's existence check for the token and its embedded
  user id answers true, the user with the embedded id exists and is active, and signing the
  new access token does not throw; every other request is answered 401 without data. An
  existence check that answers true has found a ledger row with that token and user id.
  After a logout with a non-empty token has succeeded, every refresh with that token on the
  resulting database fails with 401 \<^verbatim>\<open>Invalid refresh token\<close>, whatever the clock
  and whatever the libraries and the store answer.\<close>

theorem refreshToken_accepts_iff:
  "((\<exists>accessToken. refreshToken c e d body =
        ok ''Token refreshed successfully'' (Some (RefreshData accessToken (jwt_expiresIn c))))
    \<longleftrightarrow>
    (\<exists>t decoded user accessToken.
        body = Some t \<and> t \<noteq> [] \<and>
        jwt_verify e t (jwt_refreshSecret c) = Inr decoded \<and>
        validateRefreshToken e d t (p_id decoded) = Inr True \<and>
        findById e d (p_id decoded) = Inr (Some user) \<and> u_status user = ''active'' \<and>
        jwt_sign e \<lparr>p_id = u_id user, p_email = u_email user, p_role = Some (u_role user)\<rparr>
          (jwt_secret c) (jwt_expiresIn c) = Inr accessToken)) \<and>
   (http_status (refreshToken c e d body) = 200 \<or>
    http_status (refreshToken c e d body) = 401 \<and> data (refreshToken c e d body) = None) \<and>
   (\<forall>t uid. validateRefreshToken e d t uid = Inr True \<longrightarrow>
      (\<exists>row \<in> set (refresh_tokens d). token row = t \<and> user_id row = uid)) \<and>
   (\<forall>e1 t r d'. t \<noteq> [] \<and> logout e1 d (Some t) = (r, d') \<and> http_status r = 200 \<longrightarrow>
      (\<forall>c' e2. InvalidRefreshToken (refreshToken c' e2 d' (Some t))))"
proof (intro conjI allI impI)
  show "(\<exists>accessToken. refreshToken c e d body =
        ok ''Token refreshed successfully'' (Some (RefreshData accessToken (jwt_expiresIn c))))
    \<longleftrightarrow>
    (\<exists>t decoded user accessToken.
        body = Some t \<and> t \<noteq> [] \<and>
        jwt_verify e t (jwt_refreshSecret c) = Inr decoded \<and>
        validateRefreshToken e d t (p_id decoded) = Inr True \<and>
        findById e d (p_id decoded) = Inr (Some user) \<and> u_status user = ''active'' \<and>
        jwt_sign e \<lparr>p_id = u_id user, p_email = u_email user, p_role = Some (u_role user)\<rparr>
          (jwt_secret c) (jwt_expiresIn c) = Inr accessToken)"
    by (rule refreshToken_success_iff)
next
  show "http_status (refreshToken c e d body) = 200 \<or>
    http_status (refreshToken c e d body) = 401 \<and> data (refreshToken c e d body) = None"
    by (rule refreshToken_status)
next
  fix t uid assume "validateRefreshToken e d t uid = Inr True"
  then show "\<exists>row \<in> set (refresh_tokens d). token row = t \<and> user_id row = uid"
    by (rule validateRefreshToken_row)
next
  fix e1 t r d' c' e2
  assume a: "t \<noteq> [] \<and> logout e1 d (Some t) = (r, d') \<and> http_status r = 200"
  then have d': "d' = d\<lparr>refresh_tokens := filter (\<lambda>r. token r \<noteq> t) (refresh_tokens d)\<rparr>"
    using logout_200 by blast
  have "refreshToken c' e2 d' (Some t) = fail 401 ''Invalid refresh token''"
    unfolding d' using validateRefreshToken_after_delete a
    by (intro refreshToken_not_in_ledger) auto
  then show "InvalidRefreshToken (refreshToken c' e2 d' (Some t))"
    by (simp add: InvalidRefreshToken_def)
qed

theorem refreshToken_accepts_iff_witness:
  "refreshToken demo_config (demo_env 1793700000000)
     (demo_db\<lparr>refresh_tokens := [demo_token], tokens_seq := 1\<rparr>)
     (Some ''r-secret:ana@example.com'')
   = ok ''Token refreshed successfully'' (Some (RefreshData ''a-secret:ana@example.com'' ''15m''))
   \<and> (\<exists>row \<in> set (refresh_tokens (demo_db\<lparr>refresh_tokens := [demo_token], tokens_seq := 1\<rparr>)).
         token row = ''r-secret:ana@example.com'' \<and> user_id row = 1)
   \<and> logout (demo_env 1793700001000) (demo_db\<lparr>refresh_tokens := [demo_token], tokens_seq := 1\<rparr>)
       (Some ''r-secret:ana@example.com'')
     = (ok ''Logout successful'' None, demo_db\<lparr>refresh_tokens := [], tokens_seq := 1\<rparr>)
   \<and> refreshToken demo_config (demo_env 1793700002000)
       (demo_db\<lparr>refresh_tokens := [], tokens_seq := 1\<rparr>) (Some ''r-secret:ana@example.com'')
     = fail 401 ''Invalid refresh token''"
proof -
  let ?d1 = "demo_db\<lparr>refresh_tokens := [demo_token], tokens_seq := 1\<rparr>"
  let ?d2 = "demo_db\<lparr>refresh_tokens := [], tokens_seq := 1\<rparr>"
  let ?t = "''r-secret:ana@example.com''"
  have r1: "refreshToken demo_config (demo_env 1793700000000) ?d1 (Some ?t)
   = ok ''Token refreshed successfully'' (Some (RefreshData ''a-secret:ana@example.com'' ''15m''))"
    by code_simp
  have v: "validateRefreshToken (demo_env 1793700000000) ?d1 ?t 1 = Inr True"
    by code_simp
  have lo: "logout (demo_env 1793700001000) ?d1 (Some ?t) = (ok ''Logout successful'' None, ?d2)"
    by code_simp
  have h: "?t \<noteq> [] \<and> logout (demo_env 1793700001000) ?d1 (Some ?t)
              = (ok ''Logout successful'' None, ?d2) \<and>
           http_status (ok ''Logout successful'' None) = 200"
    using lo by (simp add: ok_def)
  note inst = refreshToken_accepts_iff [of demo_config "demo_env 1793700000000" ?d1 "Some ?t"]
  from inst v have row: "\<exists>row \<in> set (refresh_tokens ?d1). token row = ?t \<and> user_id row = 1"
    by blast
  from inst h have "InvalidRefreshToken (refreshToken demo_config (demo_env 1793700002000) ?d2
                      (Some ?t))"
    by blast
  then have r2: "refreshToken demo_config (demo_env 1793700002000) ?d2 (Some ?t)
                   = fail 401 ''Invalid refresh token''"
    by (simp add: InvalidRefreshToken_def)
  from r1 row lo r2 show ?thesis by blast
qed

text \<open>C1 as stated fails in the direction from the three conditions to acceptance: Ana's
  token verifies, its ledger row expires on 2026-11-09 and the clock says 2026-11-03, but
  Ana's status is \<^verbatim>\<open>inactive\<close>, and refresh answers 401
  \<^verbatim>\<open>User not found or inactive\<close>.\<close>

theorem refreshToken_rejects_inactive_user:
  "jwt_verify (demo_env 1793700000000) ''r-secret:ana@example.com''
      (jwt_refreshSecret demo_config)
     = Inr \<lparr>p_id = 1, p_email = ''ana@example.com'', p_role = None\<rparr> \<and>
   refresh_tokens (demo_db\<lparr>users := [ana\<lparr>u_status := ''inactive''\<rparr>],
                           refresh_tokens := [demo_token], tokens_seq := 1\<rparr>) = [demo_token] \<and>
   token demo_token = ''r-secret:ana@example.com'' \<and> user_id demo_token = 1 \<and>
   expires_at demo_token = toISOString 1794218400000 \<and>
   now (demo_env 1793700000000) < 1794218400000 \<and>
   validateRefreshToken (demo_env 1793700000000)
     (demo_db\<lparr>users := [ana\<lparr>u_status := ''inactive''\<rparr>],
              refresh_tokens := [demo_token], tokens_seq := 1\<rparr>)
     ''r-secret:ana@example.com'' 1 = Inr True \<and>
   refreshToken demo_config (demo_env 1793700000000)
     (demo_db\<lparr>users := [ana\<lparr>u_status := ''inactive''\<rparr>],
              refresh_tokens := [demo_token], tokens_seq := 1\<rparr>)
     (Some ''r-secret:ana@example.com'') = fail 401 ''User not found or inactive''"
  by code_simp


end
